theory Spec2Isabelle
  imports Main "HOL-Library.Sublist"
begin

section \<open>The interpreter's values, names and errors\<close>

text \<open>
  The program is the single module \<^verbatim>\<open>app.py\<close>. Its statements run top to bottom in the
  module's namespace; a name that is bound neither there nor in the builtins raises
  NameError, and an exception that nothing catches ends the run at that statement.
  Only strings matter to the program (it compares one with a literal and hands one to
  the framework), so every other object is opaque.
\<close>

datatype pyval = PyStr string | PyNone | PyObject string

type_synonym namespace = "string \<rightharpoonup> pyval"

datatype error =
    ModuleNotFoundError string nat
  | NameError string nat
  | AttributeError nat

text \<open>Reading a name at a given source line.\<close>

definition lookup_name :: "namespace \<Rightarrow> string \<Rightarrow> nat \<Rightarrow> error + pyval" where
  "lookup_name ns x line = (case ns x of None \<Rightarrow> Inl (NameError x line) | Some v \<Rightarrow> Inr v)"

text \<open>Python's \<^verbatim>\<open>==\<close> against a string literal: only an equal string is equal.\<close>

fun eq_str :: "pyval \<Rightarrow> string \<Rightarrow> bool" where
  "eq_str (PyStr s) lit = (s = lit)"
| "eq_str PyNone lit = False"
| "eq_str (PyObject n) lit = False"

section \<open>The handler\<close>

text \<open>
  Lines 4 to 15: \<^verbatim>\<open>def home(): return """..."""\<close>. The literal opens with a line break,
  every line keeps its indentation, and four spaces follow the last line break.
\<close>

definition home :: string where
  "home = ''\<newline>    <html>\<newline>      <head>\<newline>        <title>Hello, Flask!</title>\<newline>      </head>\<newline>      <body>\<newline>        <h1>Hello, World!</h1>\<newline>        <p>Welcome to your Flask-powered webpage!</p>\<newline>      </body>\<newline>    </html>\<newline>    ''"

section \<open>The framework objects the program creates\<close>

text \<open>
  The application object holds the URL rules and the view functions registered on it.
  The program defines one view function, so views are named by a datatype.
\<close>

datatype view = ViewHome

record url_rule =
  rule :: string
  methods :: "string list"
  endpoint :: string

record flask_app =
  import_name :: string
  url_map :: "url_rule list"
  view_functions :: "(string \<times> view) list"

text \<open>The development server that \<^verbatim>\<open>app.run\<close> starts; no port means the framework's default.\<close>

record server =
  host :: string
  port :: "nat option"
  debug :: bool

text \<open>
  \<^verbatim>\<open>Flask(import_name)\<close>: a new application with nothing registered by the program.
  The import name is a module name, a string; the framework treats it as one, and with
  anything else the constructor ends in AttributeError. The record holds the rules the
  program registers: the rule for static files that the framework adds on its own is
  left out, as the repository has no such files.
\<close>

fun Flask :: "pyval \<Rightarrow> nat \<Rightarrow> error + flask_app" where
  "Flask (PyStr n) line = Inr \<lparr>import_name = n, url_map = [], view_functions = []\<rparr>"
| "Flask PyNone line = Inl (AttributeError line)"
| "Flask (PyObject x) line = Inl (AttributeError line)"

text \<open>
  \<^verbatim>\<open>@app.route(r)\<close> on a function named \<open>e\<close>, with no \<^verbatim>\<open>methods\<close> argument: the rule
  answers GET, and the framework adds HEAD and OPTIONS to a rule that answers GET.
\<close>

definition route :: "flask_app \<Rightarrow> string \<Rightarrow> string \<Rightarrow> view \<Rightarrow> flask_app" where
  "route a r e v =
     a\<lparr>url_map := url_map a @ [\<lparr>rule = r, methods = [''GET'', ''HEAD'', ''OPTIONS''], endpoint = e\<rparr>],
       view_functions := view_functions a @ [(e, v)]\<rparr>"

text \<open>\<^verbatim>\<open>app.run(debug=d, host=h)\<close>: the call of line 18 passes no port.\<close>

definition run :: "bool \<Rightarrow> string \<Rightarrow> server" where
  "run d h = \<lparr>host = h, port = None, debug = d\<rparr>"

section \<open>The module, statement by statement\<close>

record pstate =
  globals :: namespace
  app :: "flask_app option"
  serving :: "server option"

text \<open>Line 1: \<^verbatim>\<open>from flask import Flask\<close>.\<close>

definition line1 :: "bool \<Rightarrow> pstate \<Rightarrow> error + pstate" where
  "line1 installed st =
     (if installed then Inr (st\<lparr>globals := (globals st)(''Flask'' \<mapsto> PyObject ''flask.Flask'')\<rparr>)
      else Inl (ModuleNotFoundError ''flask'' 1))"

text \<open>Line 2: \<^verbatim>\<open>app = Flask(_name_)\<close>; the callee is read first, then the argument.\<close>

definition line2 :: "pstate \<Rightarrow> error + pstate" where
  "line2 st =
     (case lookup_name (globals st) ''Flask'' 2 of
        Inl e \<Rightarrow> Inl e
      | Inr c \<Rightarrow>
         (case lookup_name (globals st) ''_name_'' 2 of
            Inl e \<Rightarrow> Inl e
          | Inr n \<Rightarrow>
             (case Flask n 2 of
                Inl e \<Rightarrow> Inl e
              | Inr a \<Rightarrow> Inr (st\<lparr>globals := (globals st)(''app'' \<mapsto> PyObject ''app''),
                                 app := Some a\<rparr>))))"

text \<open>Lines 3 to 15: \<^verbatim>\<open>@app.route('/')\<close> over \<^verbatim>\<open>def home()\<close>.\<close>

definition line3 :: "pstate \<Rightarrow> error + pstate" where
  "line3 st =
     (case app st of
        None \<Rightarrow> Inl (NameError ''app'' 3)
      | Some a \<Rightarrow> Inr (st\<lparr>globals := (globals st)(''home'' \<mapsto> PyObject ''home''),
                         app := Some (route a ''/'' ''home'' ViewHome)\<rparr>))"

text \<open>Lines 17 and 18: \<^verbatim>\<open>if _name_ == '_main_': app.run(debug=True, host='0.0.0.0')\<close>.\<close>

definition line17 :: "pstate \<Rightarrow> error + pstate" where
  "line17 st =
     (case lookup_name (globals st) ''_name_'' 17 of
        Inl e \<Rightarrow> Inl e
      | Inr n \<Rightarrow>
         (if eq_str n ''_main_'' then
            (case app st of
               None \<Rightarrow> Inl (NameError ''app'' 18)
             | Some a \<Rightarrow> Inr (st\<lparr>serving := Some (run True ''0.0.0.0'')\<rparr>))
          else Inr st))"

text \<open>
  Statements run in order until one raises. The outcome keeps the state reached, with
  the exception that ended the run, if any.
\<close>

fun exec :: "(pstate \<Rightarrow> error + pstate) list \<Rightarrow> pstate \<Rightarrow> pstate \<times> error option" where
  "exec [] st = (st, None)"
| "exec (s # ss) st = (case s st of Inl e \<Rightarrow> (st, Some e) | Inr st' \<Rightarrow> exec ss st')"

text \<open>
  What the interpreter gives the module: the names bound when line 1 starts (the
  module's own and the builtins), and whether the package \<^verbatim>\<open>flask\<close> can be imported.
\<close>

record interp =
  names :: namespace
  flask_installed :: bool

definition app_py :: "interp \<Rightarrow> pstate \<times> error option" where
  "app_py i =
     exec [line1 (flask_installed i), line2, line3, line17]
          \<lparr>globals = names i, app = None, serving = None\<rparr>"

section \<open>Running the program directly\<close>

text \<open>
  \<^verbatim>\<open>python app.py\<close> runs the module as the main module: the interpreter binds the
  module attributes below, \<^verbatim>\<open>__name__\<close> to the string \<^verbatim>\<open>__main__\<close>, and every other
  name is looked up in the builtins.
\<close>

definition main_globals :: "(string \<times> pyval) list" where
  "main_globals =
     [(''__name__'', PyStr ''__main__''),
      (''__doc__'', PyNone),
      (''__package__'', PyNone),
      (''__loader__'', PyObject ''SourceFileLoader''),
      (''__spec__'', PyNone),
      (''__annotations__'', PyObject ''dict''),
      (''__builtins__'', PyObject ''builtins''),
      (''__file__'', PyStr ''app.py''),
      (''__cached__'', PyNone)]"

definition builtin_names :: "string list" where
  "builtin_names =
     [''ArithmeticError'', ''AssertionError'', ''AttributeError'', ''BaseException'',
      ''BaseExceptionGroup'', ''BlockingIOError'', ''BrokenPipeError'', ''BufferError'',
      ''BytesWarning'', ''ChildProcessError'', ''ConnectionAbortedError'', ''ConnectionError'',
      ''ConnectionRefusedError'', ''ConnectionResetError'', ''DeprecationWarning'', ''EOFError'',
      ''Ellipsis'', ''EncodingWarning'', ''EnvironmentError'', ''Exception'', ''ExceptionGroup'',
      ''False'', ''FileExistsError'', ''FileNotFoundError'', ''FloatingPointError'',
      ''FutureWarning'', ''GeneratorExit'', ''IOError'', ''ImportError'', ''ImportWarning'',
      ''IndentationError'', ''IndexError'', ''InterruptedError'', ''IsADirectoryError'',
      ''KeyError'', ''KeyboardInterrupt'', ''LookupError'', ''MemoryError'',
      ''ModuleNotFoundError'', ''NameError'', ''None'', ''NotADirectoryError'',
      ''NotImplemented'', ''NotImplementedError'', ''OSError'', ''OverflowError'',
      ''PendingDeprecationWarning'', ''PermissionError'', ''ProcessLookupError'',
      ''RecursionError'', ''ReferenceError'', ''ResourceWarning'', ''RuntimeError'',
      ''RuntimeWarning'', ''StopAsyncIteration'', ''StopIteration'', ''SyntaxError'',
      ''SyntaxWarning'', ''SystemError'', ''SystemExit'', ''TabError'', ''TimeoutError'',
      ''True'', ''TypeError'', ''UnboundLocalError'', ''UnicodeDecodeError'',
      ''UnicodeEncodeError'', ''UnicodeError'', ''UnicodeTranslateError'', ''UnicodeWarning'',
      ''UserWarning'', ''ValueError'', ''Warning'', ''ZeroDivisionError'',
      ''__build_class__'', ''__debug__'', ''__doc__'', ''__import__'', ''__loader__'',
      ''__name__'', ''__package__'', ''__spec__'',
      ''abs'', ''aiter'', ''all'', ''anext'', ''any'', ''ascii'', ''bin'', ''bool'',
      ''breakpoint'', ''bytearray'', ''bytes'', ''callable'', ''chr'', ''classmethod'',
      ''compile'', ''complex'', ''copyright'', ''credits'', ''delattr'', ''dict'', ''dir'',
      ''divmod'', ''enumerate'', ''eval'', ''exec'', ''exit'', ''filter'', ''float'',
      ''format'', ''frozenset'', ''getattr'', ''globals'', ''hasattr'', ''hash'', ''help'',
      ''hex'', ''id'', ''input'', ''int'', ''isinstance'', ''issubclass'', ''iter'', ''len'',
      ''license'', ''list'', ''locals'', ''map'', ''max'', ''memoryview'', ''min'', ''next'',
      ''object'', ''oct'', ''open'', ''ord'', ''pow'', ''print'', ''property'', ''quit'',
      ''range'', ''repr'', ''reversed'', ''round'', ''set'', ''setattr'', ''slice'',
      ''sorted'', ''staticmethod'', ''str'', ''sum'', ''super'', ''tuple'', ''type'',
      ''vars'', ''zip'']"

text \<open>A name of the module shadows a builtin of the same name.\<close>

definition main_names :: namespace where
  "main_names x =
     (case map_of main_globals x of
        Some v \<Rightarrow> Some v
      | None \<Rightarrow> if x \<in> set builtin_names then Some (PyObject x) else None)"

definition direct_run :: interp where
  "direct_run = \<lparr>names = main_names, flask_installed = True\<rparr>"

section \<open>Requests and the framework's dispatch\<close>

datatype http_method = GET | HEAD | POST | PUT | DELETE | OPTIONS | PATCH | TRACE | CONNECT

record request =
  req_method :: http_method
  path :: string
  query_string :: string
  req_headers :: "(string \<times> string) list"
  req_body :: string

record response =
  status :: nat
  headers :: "(string \<times> string) list"
  body :: string

definition content_type :: "response \<Rightarrow> string option" where
  "content_type r = map_of (headers r) ''Content-Type''"

text \<open>The methods a rule of the program answers, as registered by \<open>route\<close>.\<close>

fun method_name :: "http_method \<Rightarrow> string" where
  "method_name GET = ''GET''"
| "method_name HEAD = ''HEAD''"
| "method_name POST = ''POST''"
| "method_name PUT = ''PUT''"
| "method_name DELETE = ''DELETE''"
| "method_name OPTIONS = ''OPTIONS''"
| "method_name PATCH = ''PATCH''"
| "method_name TRACE = ''TRACE''"
| "method_name CONNECT = ''CONNECT''"

text \<open>
  The framework calls a view function with the arguments taken from the URL. The rule of
  \<open>home\<close> has none, and \<open>home\<close> has no parameter: nothing of the request reaches it.
\<close>

fun call_view :: "view \<Rightarrow> request \<Rightarrow> string" where
  "call_view ViewHome rq = home"

text \<open>A string returned by a view becomes a response with status 200 and an HTML type.\<close>

definition make_response :: "string \<Rightarrow> response" where
  "make_response rv =
     \<lparr>status = 200, headers = [(''Content-Type'', ''text/html; charset=utf-8'')], body = rv\<rparr>"

definition not_found :: response where
  "not_found =
     \<lparr>status = 404, headers = [(''Content-Type'', ''text/html; charset=utf-8'')],
      body = ''<!doctype html>\<newline><html lang=en>\<newline><title>404 Not Found</title>\<newline><h1>Not Found</h1>\<newline><p>The requested URL was not found on the server. If you entered the URL manually please check your spelling and try again.</p>\<newline>''\<rparr>"

text \<open>The value of an Allow header: the methods joined by a comma and a space.\<close>

fun join_methods :: "string list \<Rightarrow> string" where
  "join_methods [] = []"
| "join_methods [m] = m"
| "join_methods (m # n # ms) = m @ '', '' @ join_methods (n # ms)"

definition method_not_allowed :: "string list \<Rightarrow> response" where
  "method_not_allowed ms =
     \<lparr>status = 405,
      headers = [(''Content-Type'', ''text/html; charset=utf-8''), (''Allow'', join_methods ms)],
      body = ''<!doctype html>\<newline><html lang=en>\<newline><title>405 Method Not Allowed</title>\<newline><h1>Method Not Allowed</h1>\<newline><p>The method is not allowed for the requested URL.</p>\<newline>''\<rparr>"

definition internal_server_error :: response where
  "internal_server_error =
     \<lparr>status = 500, headers = [(''Content-Type'', ''text/html; charset=utf-8'')], body = []\<rparr>"

definition options_response :: "string list \<Rightarrow> response" where
  "options_response ms =
     \<lparr>status = 200,
      headers = [(''Content-Type'', ''text/html; charset=utf-8''), (''Allow'', join_methods ms)],
      body = []\<rparr>"

text \<open>
  Matching: the first rule whose path is the request's and that answers its method.
  With no such rule, a path that some rule has is answered 405, any other path 404.
  OPTIONS on a matched rule is answered by the framework itself. Paths are compared as
  they are: the framework's merging of repeated slashes and its redirects are not part
  of this model, which is exact on the root path only.
\<close>

definition allowed_methods :: "flask_app \<Rightarrow> string \<Rightarrow> string list" where
  "allowed_methods a p = concat (map methods (filter (\<lambda>r. rule r = p) (url_map a)))"

definition full_dispatch_request :: "flask_app \<Rightarrow> request \<Rightarrow> response" where
  "full_dispatch_request a rq =
     (case find (\<lambda>r. rule r = path rq \<and> method_name (req_method rq) \<in> set (methods r)) (url_map a) of
        Some r \<Rightarrow>
          (if req_method rq = OPTIONS then options_response (allowed_methods a (path rq))
           else (case map_of (view_functions a) (endpoint r) of
                   Some v \<Rightarrow> make_response (call_view v rq)
                 | None \<Rightarrow> internal_server_error))
      | None \<Rightarrow>
          (if allowed_methods a (path rq) = [] then not_found
           else method_not_allowed (allowed_methods a (path rq))))"

text \<open>The server sends no body in answer to HEAD.\<close>

definition wsgi_app :: "flask_app \<Rightarrow> request \<Rightarrow> response" where
  "wsgi_app a rq =
     (let r = full_dispatch_request a rq in if req_method rq = HEAD then r\<lparr>body := []\<rparr> else r)"

text \<open>
  What a client gets from the program after the module has run: an answer only when the
  run raised nothing and left a server listening; otherwise nothing listens.
\<close>

definition respond :: "pstate \<times> error option \<Rightarrow> request \<Rightarrow> response option" where
  "respond out rq =
     (case snd out of
        Some e \<Rightarrow> None
      | None \<Rightarrow>
         (case serving (fst out) of
            None \<Rightarrow> None
          | Some s \<Rightarrow>
             (case app (fst out) of
                None \<Rightarrow> None
              | Some a \<Rightarrow> Some (wsgi_app a rq))))"

section \<open>Whitespace stripping\<close>

text \<open>Python's \<^verbatim>\<open>str.strip()\<close> on ASCII text: the characters it removes at both ends.\<close>

definition is_space :: "char \<Rightarrow> bool" where
  "is_space c = (c \<in> set [CHR 0x09, CHR 0x0A, CHR 0x0B, CHR 0x0C, CHR 0x0D,
                               CHR 0x1C, CHR 0x1D, CHR 0x1E, CHR 0x1F, CHR 0x20])"

definition strip :: "string \<Rightarrow> string" where
  "strip s = rev (dropWhile is_space (rev (dropWhile is_space s)))"

text \<open>Whether a client received a response whose stripped body contains a given text.\<close>

definition body_contains :: "string \<Rightarrow> response option \<Rightarrow> bool" where
  "body_contains s ro = (case ro of None \<Rightarrow> False | Some r \<Rightarrow> sublist s (strip (body r)))"

text \<open>
  The application object the module builds when \<^verbatim>\<open>_name_\<close> is bound to the string
  \<^verbatim>\<open>_main_\<close>, the one binding under which line 18 starts a server.
\<close>

definition served_app :: flask_app where
  "served_app = route \<lparr>import_name = ''_main_'', url_map = [], view_functions = []\<rparr> ''/'' ''home'' ViewHome"

section \<open>Facts about the run of the module\<close>

lemma direct_run_unbound: "names direct_run ''_name_'' = None"
  by (simp add: direct_run_def main_names_def main_globals_def builtin_names_def)

lemma direct_run_installed: "flask_installed direct_run"
  by (simp add: direct_run_def)

lemma direct_run_dunder: "names direct_run ''__name__'' = Some (PyStr ''__main__'')"
  by (simp add: direct_run_def main_names_def main_globals_def)

text \<open>A module that cannot import the framework stops at line 1.\<close>

lemma app_py_not_installed:
  "\<not> flask_installed i \<Longrightarrow>
     app_py i = (\<lparr>globals = names i, app = None, serving = None\<rparr>,
                 Some (ModuleNotFoundError ''flask'' 1))"
  by (simp add: app_py_def line1_def)

text \<open>With \<^verbatim>\<open>_name_\<close> unbound, the run stops at line 2, in the state line 1 left.\<close>

lemma app_py_unbound:
  assumes "flask_installed i" and "names i ''_name_'' = None"
  shows "app_py i =
           (\<lparr>globals = (names i)(''Flask'' \<mapsto> PyObject ''flask.Flask''), app = None, serving = None\<rparr>,
            Some (NameError ''_name_'' 2))"
  using assms by (simp add: app_py_def line1_def line2_def lookup_name_def)

text \<open>With \<^verbatim>\<open>_name_\<close> bound to a string, every statement runs; line 18 runs for one string only.\<close>

lemma app_py_bound:
  assumes "flask_installed i" and "names i ''_name_'' = Some (PyStr n)"
  shows "app_py i =
           (\<lparr>globals = (names i)(''Flask'' \<mapsto> PyObject ''flask.Flask'', ''app'' \<mapsto> PyObject ''app'',
                                  ''home'' \<mapsto> PyObject ''home''),
             app = Some (route \<lparr>import_name = n, url_map = [], view_functions = []\<rparr> ''/'' ''home'' ViewHome),
             serving = (if n = ''_main_'' then Some (run True ''0.0.0.0'') else None)\<rparr>,
            None)"
  using assms
  by (simp add: app_py_def line1_def line2_def line3_def line17_def lookup_name_def)

lemma app_py_bound_other:
  assumes "flask_installed i" and "names i ''_name_'' = Some v" and "\<forall>n. v \<noteq> PyStr n"
  shows "app_py i =
           (\<lparr>globals = (names i)(''Flask'' \<mapsto> PyObject ''flask.Flask''), app = None, serving = None\<rparr>,
            Some (AttributeError 2))"
  using assms
  by (cases v) (simp_all add: app_py_def line1_def line2_def lookup_name_def)

text \<open>A server is started exactly when \<^verbatim>\<open>_name_\<close> is bound to the string \<^verbatim>\<open>_main_\<close>.\<close>

lemma serving_cases:
  "serving (fst (app_py i)) =
     (if flask_installed i \<and> names i ''_name_'' = Some (PyStr ''_main_'')
      then Some (run True ''0.0.0.0'') else None)"
proof (cases "flask_installed i")
  case False
  then show ?thesis by (simp add: app_py_not_installed)
next
  case inst: True
  show ?thesis
  proof (cases "names i ''_name_''")
    case None
    with inst show ?thesis by (simp add: app_py_unbound)
  next
    case (Some v)
    show ?thesis
    proof (cases v)
      case (PyStr n)
      with inst Some show ?thesis by (simp add: app_py_bound)
    next
      case PyNone
      with inst Some show ?thesis by (simp add: app_py_bound_other)
    next
      case (PyObject x)
      with inst Some show ?thesis by (simp add: app_py_bound_other)
    qed
  qed
qed

text \<open>Nothing answers a request after a run that raised.\<close>

lemma respond_raised: "snd out = Some e \<Longrightarrow> respond out rq = None"
  by (simp add: respond_def)

lemma respond_direct_run: "respond (app_py direct_run) rq = None"
  by (rule respond_raised [where e = "NameError ''_name_'' 2"])
     (simp add: app_py_unbound direct_run_unbound direct_run_installed)

text \<open>
  Under that binding the program serves the page on GET of the root path, and on any
  other method there either no body (HEAD, OPTIONS) or 405.
\<close>

lemma respond_bound_main:
  assumes "flask_installed i" and "names i ''_name_'' = Some (PyStr ''_main_'')"
  shows "respond (app_py i) rq = Some (wsgi_app served_app rq)"
  using assms by (simp add: app_py_bound respond_def served_app_def)

lemma served_get_root:
  "req_method rq = GET \<Longrightarrow> path rq = ''/'' \<Longrightarrow> wsgi_app served_app rq = make_response home"
  by (simp add: wsgi_app_def full_dispatch_request_def served_app_def route_def)

lemma served_root_other_method:
  "path rq = ''/'' \<Longrightarrow> req_method rq \<noteq> GET \<Longrightarrow> wsgi_app served_app rq \<noteq> make_response home"
  by (cases "req_method rq")
     (simp_all add: wsgi_app_def full_dispatch_request_def served_app_def route_def
        allowed_methods_def make_response_def options_response_def
        method_not_allowed_def home_def)

lemma strip_home:
  "strip home = ''<html>\<newline>      <head>\<newline>        <title>Hello, Flask!</title>\<newline>      </head>\<newline>      <body>\<newline>        <h1>Hello, World!</h1>\<newline>        <p>Welcome to your Flask-powered webpage!</p>\<newline>      </body>\<newline>    </html>''"
  by (simp add: strip_def home_def is_space_def)

lemma strip_home_title: "sublist ''<title>Hello, Flask!</title>'' (strip home)"
  unfolding strip_home by code_simp

lemma strip_home_flask: "sublist ''Hello, Flask!'' (strip home)"
  unfolding strip_home by code_simp

lemma strip_home_world: "sublist ''Hello, World!'' (strip home)"
  unfolding strip_home by code_simp

lemma strip_home_h1: "sublist ''<h1>Hello, World!</h1>'' (strip home)"
  unfolding strip_home by code_simp

text \<open>
  Were \<^verbatim>\<open>_name_\<close> bound to \<^verbatim>\<open>_main_\<close>, the module, the route of line 3 and the dispatch
  would deliver those texts to a GET of the root path.
\<close>

lemma served_root_contains:
  assumes "flask_installed i" and "names i ''_name_'' = Some (PyStr ''_main_'')"
    and "req_method rq = GET" and "path rq = ''/''"
  shows "body_contains ''<title>Hello, Flask!</title>'' (respond (app_py i) rq)"
    and "body_contains ''Hello, Flask!'' (respond (app_py i) rq)"
    and "body_contains ''Hello, World!'' (respond (app_py i) rq)"
    and "body_contains ''<h1>Hello, World!</h1>'' (respond (app_py i) rq)"
  using assms
  by (simp_all add: respond_bound_main served_get_root body_contains_def make_response_def
        strip_home_title strip_home_flask strip_home_world strip_home_h1)

lemma call_view_home: "call_view v rq = home"
  by (cases v) simp

section \<open>The claims\<close>

text \<open>
  Claim C1: every GET of the root path is answered with status 200 and the string of
  \<open>home\<close> as body. The program run directly answers no request: the run raises at
  line 2 and no server is left listening, so a GET of the root path gets no response.
\<close>

theorem get_root_unanswered:
  "respond (app_py direct_run)
     \<lparr>req_method = GET, path = ''/'', query_string = q, req_headers = h, req_body = b\<rparr> = None"
  by (rule respond_direct_run)

text \<open>
  Claim C2: the response body of a GET of the root path, stripped of the whitespace at
  both ends, contains "Hello, Flask!", "Hello, World!" and the heading element. The
  program run directly sends no response to that request, so the client receives no
  body that contains any of them, or any text at all; the literal of \<open>home\<close> does
  contain them (lemmas \<open>strip_home_title\<close> to \<open>strip_home_h1\<close>), and is served under
  the binding of \<open>served_root_contains\<close> only.
\<close>

theorem get_root_no_body:
  "\<not> body_contains s (respond (app_py direct_run)
      \<lparr>req_method = GET, path = ''/'', query_string = q, req_headers = h, req_body = b\<rparr>)"
  by (simp add: respond_direct_run body_contains_def)

text \<open>
  Claim C3: every GET of the root path is answered with an HTML content type. The
  program run directly sends no response, hence no Content-Type header.
\<close>

theorem get_root_no_content_type:
  "Option.bind (respond (app_py direct_run)
      \<lparr>req_method = GET, path = ''/'', query_string = q, req_headers = h, req_body = b\<rparr>) content_type = None"
  by (simp add: respond_direct_run)

text \<open>
  Claim C4: running the program directly starts the listener. The direct run ends at
  line 2 with NameError, with no application object and no server.
\<close>

theorem direct_run_no_listener:
  "snd (app_py direct_run) = Some (NameError ''_name_'' 2) \<and>
   app (fst (app_py direct_run)) = None \<and>
   serving (fst (app_py direct_run)) = None"
  by (simp add: app_py_unbound direct_run_unbound direct_run_installed)

text \<open>
  Claim C5: the misspelt names keep the startup block from running when the program is
  run directly. In a direct run \<^verbatim>\<open>__name__\<close> is \<^verbatim>\<open>__main__\<close>; whether \<^verbatim>\<open>_name_\<close> is unbound,
  as the interpreter leaves it, or even stood for the value of \<^verbatim>\<open>__name__\<close>, which the
  literal \<^verbatim>\<open>_main_\<close> does not equal, line 18 is not run and no server is started.
\<close>

theorem startup_block_never_runs:
  assumes "names i ''__name__'' = Some (PyStr ''__main__'')"
    and "names i ''_name_'' = None \<or> names i ''_name_'' = names i ''__name__''"
  shows "serving (fst (app_py i)) = None"
  using assms by (auto simp add: serving_cases)

theorem startup_block_never_runs_witness:
  "names direct_run ''__name__'' = Some (PyStr ''__main__'') \<and>
   names direct_run ''_name_'' = None \<and>
   serving (fst (app_py direct_run)) = None"
  using startup_block_never_runs [of direct_run]
  by (simp add: direct_run_unbound direct_run_dunder)

text \<open>
  Claim C6: the module raises NameError at line 2, since \<^verbatim>\<open>_name_\<close> is never bound: the
  run ends there, before the route decorator of line 3, so no application object exists,
  no route is registered (\<open>home\<close> is not even bound) and no server is started.
\<close>

theorem module_raises_NameError:
  assumes "flask_installed i" and "names i ''_name_'' = None"
  shows "snd (app_py i) = Some (NameError ''_name_'' 2) \<and>
         app (fst (app_py i)) = None \<and>
         serving (fst (app_py i)) = None \<and>
         globals (fst (app_py i)) ''home'' = names i ''home''"
  using assms by (simp add: app_py_unbound)

theorem module_raises_NameError_witness:
  "flask_installed direct_run \<and> names direct_run ''_name_'' = None \<and>
   snd (app_py direct_run) = Some (NameError ''_name_'' 2) \<and>
   app (fst (app_py direct_run)) = None \<and>
   serving (fst (app_py direct_run)) = None"
  using module_raises_NameError [of direct_run]
  by (simp add: direct_run_unbound direct_run_installed)

text \<open>
  Claim C7: a request to any other path falls through to the framework's not-found
  response. The program run directly gives such a request no response at all, the
  not-found page included.
\<close>

theorem other_path_unanswered:
  "respond (app_py direct_run)
     \<lparr>req_method = GET, path = ''/about'', query_string = q, req_headers = h, req_body = b\<rparr> = None \<and>
   respond (app_py direct_run)
     \<lparr>req_method = GET, path = ''/about'', query_string = q, req_headers = h, req_body = b\<rparr> \<noteq> Some not_found"
  by (simp add: respond_direct_run)

text \<open>
  Claim C8: a request to the root path with another method than GET receives the
  framework's rejection. The program run directly gives a POST there no response at all.
\<close>

theorem root_post_unanswered:
  "respond (app_py direct_run)
     \<lparr>req_method = POST, path = ''/'', query_string = q, req_headers = h, req_body = b\<rparr> = None \<and>
   respond (app_py direct_run)
     \<lparr>req_method = POST, path = ''/'', query_string = q, req_headers = h, req_body = b\<rparr>
       \<noteq> Some (method_not_allowed [''GET'', ''HEAD'', ''OPTIONS''])"
  by (simp add: respond_direct_run)

text \<open>
  Claim C9: the server listens on host 0.0.0.0 with the framework's default port. The
  program run directly binds no socket: no server with that host, or any, is started.
\<close>

theorem no_socket_bound:
  "map_option host (serving (fst (app_py direct_run))) = None \<and>
   serving (fst (app_py direct_run)) \<noteq> Some (run True ''0.0.0.0'')"
  by (simp add: serving_cases direct_run_unbound)

text \<open>
  Claim C10: \<open>home\<close> is a constant function. It returns the same string for any two
  requests, so the bodies made from it are equal; and the answer of the program to a
  request does not change with the query string, the headers or the body of the request.
\<close>

theorem home_constant:
  "call_view ViewHome r1 = call_view ViewHome r2 \<and>
   body (make_response (call_view ViewHome r1)) = body (make_response (call_view ViewHome r2)) \<and>
   respond (app_py i) (rq\<lparr>query_string := q, req_headers := h, req_body := b\<rparr>) = respond (app_py i) rq"
  by (simp add: respond_def wsgi_app_def full_dispatch_request_def call_view_home split: option.splits)

end
